theory Spec2Isabelle
  imports Complex_Main "HOL-Library.Product_Lexorder"
begin

section \<open>Strings as Python sees them\<close>

text \<open>
  Titles and replies are modelled as \<^typ>\<open>string\<close>: a character is a code point below
  256. \<open>str.lower\<close> maps the capital letters among these code points (A to Z, and
  U+00C0 to U+00DE without the multiplication sign U+00D7) to their small letters and
  leaves every other character as it is; \<open>k in t\<close> on strings is the substring test.
\<close>

definition lower_char :: "char \<Rightarrow> char" where
  "lower_char c =
     (case map_of
        (zip (''ABCDEFGHIJKLMNOPQRSTUVWXYZ'' @
          [CHR 0xC0, CHR 0xC1, CHR 0xC2, CHR 0xC3, CHR 0xC4, CHR 0xC5, CHR 0xC6, CHR 0xC7,
           CHR 0xC8, CHR 0xC9, CHR 0xCA, CHR 0xCB, CHR 0xCC, CHR 0xCD, CHR 0xCE, CHR 0xCF,
           CHR 0xD0, CHR 0xD1, CHR 0xD2, CHR 0xD3, CHR 0xD4, CHR 0xD5, CHR 0xD6, CHR 0xD8,
           CHR 0xD9, CHR 0xDA, CHR 0xDB, CHR 0xDC, CHR 0xDD, CHR 0xDE])
         (''abcdefghijklmnopqrstuvwxyz'' @
          [CHR 0xE0, CHR 0xE1, CHR 0xE2, CHR 0xE3, CHR 0xE4, CHR 0xE5, CHR 0xE6, CHR 0xE7,
           CHR 0xE8, CHR 0xE9, CHR 0xEA, CHR 0xEB, CHR 0xEC, CHR 0xED, CHR 0xEE, CHR 0xEF,
           CHR 0xF0, CHR 0xF1, CHR 0xF2, CHR 0xF3, CHR 0xF4, CHR 0xF5, CHR 0xF6, CHR 0xF8,
           CHR 0xF9, CHR 0xFA, CHR 0xFB, CHR 0xFC, CHR 0xFD, CHR 0xFE])) c of
        Some l \<Rightarrow> l
      | None \<Rightarrow> c)"

text \<open>\<open>def lower(s): return (s or "").lower()\<close>\<close>

definition lower :: "string \<Rightarrow> string" where
  "lower s = map lower_char s"

fun startswith :: "string \<Rightarrow> string \<Rightarrow> bool" where
  "startswith s [] = True"
| "startswith [] (p # ps) = False"
| "startswith (c # cs) (p # ps) = (c = p \<and> startswith cs ps)"

text \<open>\<open>contains t k\<close> is Python's \<open>k in t\<close>.\<close>

fun contains :: "string \<Rightarrow> string \<Rightarrow> bool" where
  "contains [] k = (k = [])"
| "contains (c # cs) k = (startswith (c # cs) k \<or> contains cs k)"

section \<open>filter.py: the title classifier\<close>

definition NEG_TITLE_KEYWORDS :: "string list" where
  "NEG_TITLE_KEYWORDS =
    [''movie'', ''film'', ''web series'', ''trailer'', ''box office'', ''actor'', ''actress'',
     ''bollywood'', ''tollywood'', ''kollywood'', ''entertainment'', ''celebrity'', ''music'',
     ''album'',
     ''cricket'', ''ipl'', ''odi'', ''t20'', ''test match'', ''football'', ''fifa'', ''tennis'',
     ''badminton'', ''world cup'', ''asia cup'', ''olympics'', ''scorecard'', ''match preview'',
     ''match report'',
     ''recipe'', ''travel'', ''tourism'', ''festival'', ''fashion'', ''beauty'', ''lifestyle'',
     ''diet'',
     ''how to'', ''tips and tricks'', ''what is'', ''explained'', ''viral'',
     ''election'', ''elections'', ''minister'', ''cabinet'', ''parliament'', ''assembly'',
     ''campaign'', ''rally'', ''politics'', ''political'', ''chief minister'',
     ''prime minister'', ''pm'', ''cm'', ''mla'', ''mp'']"

definition IMPACT_KEYWORDS :: "string list" where
  "IMPACT_KEYWORDS =
    [''stock'', ''stocks'', ''share'', ''shares'', ''market'', ''markets'', ''equity'',
     ''equities'', ''nifty'', ''sensex'', ''bank nifty'', ''nse'', ''bse'', ''index'',
     ''indices'', ''intraday'',
     ''ipo'', ''fpo'', ''buyback'', ''dividend'', ''split'', ''bonus'', ''rights issue'',
     ''delisting'', ''merger'', ''acquisition'', ''stake'', ''pledge'', ''de-pledge'',
     ''board meeting'',
     ''earnings'', ''results'', ''q1'', ''q2'', ''q3'', ''q4'', ''fy'', ''profit'', ''loss'',
     ''revenue'', ''ebitda'', ''margin'', ''guidance'', ''order book'',
     ''rbi'', ''sebi'', ''gst'', ''customs duty'', ''import duty'', ''export duty'', ''tariff'',
     ''fta'', ''repo rate'', ''inflation'', ''gdp'', ''iip'', ''cci'', ''crr'', ''slr'',
     ''brokerage'', ''target price'', ''price target'', ''rating'', ''upgrade'', ''downgrade'',
     ''overweight'', ''underweight'', ''buy'', ''sell'', ''accumulate'', ''hold'', ''neutral'',
     ''capex'', ''debt'', ''bond'', ''ncd'', ''maturity'', ''refinance'', ''order win'',
     ''contract'', ''mou'', ''approval'', ''licence'', ''license'', ''patent'',
     ''launch'', ''unveil'', ''roll out'', ''shipments'', ''pre-orders'', ''bookings'']"

text \<open>
  The seven entries of \<open>IMPACT_PATTERNS\<close>, in the source's order: tickers such as
  RELIANCE.NS, exchange and index names, movement verbs, percentage changes, currency
  amounts, 52-week or all-time highs and lows, capital-market events. The regular
  expression engine is the standard library's, not this repository's: \<open>re.search(pat,
  title, flags=re.I)\<close> is the parameter \<open>re_search\<close> of the model.
\<close>

datatype impact_pattern =
  TickerPat | ExchangePat | MovementPat | PercentPat | AmountPat | HighLowPat | CapitalEventPat

definition IMPACT_PATTERNS :: "impact_pattern list" where
  "IMPACT_PATTERNS =
    [TickerPat, ExchangePat, MovementPat, PercentPat, AmountPat, HighLowPat, CapitalEventPat]"

definition title_has_impact :: "(impact_pattern \<Rightarrow> string \<Rightarrow> bool) \<Rightarrow> string \<Rightarrow> bool" where
  "title_has_impact re_search title =
     (let t = lower title in
      if list_ex (contains t) IMPACT_KEYWORDS then True
      else list_ex (\<lambda>pat. re_search pat title) IMPACT_PATTERNS)"

text \<open>
  \<open>NEG_TITLE_KEYWORDS\<close> is a Python set, and \<open>next((neg for neg in NEG_TITLE_KEYWORDS if
  neg in t), None)\<close> takes the first hit in the set's iteration order, which the language
  leaves open. The order is the parameter \<open>neg_order\<close>, a list enumerating the set.
  \<open>if neg_hit:\<close> is false for \<open>None\<close> and for the empty string.
\<close>

definition title_should_keep ::
  "string list \<Rightarrow> (impact_pattern \<Rightarrow> string \<Rightarrow> bool) \<Rightarrow> string \<Rightarrow> bool \<times> string" where
  "title_should_keep neg_order re_search title =
     (let t = lower title in
      case find (contains t) neg_order of
        Some neg_hit \<Rightarrow>
          if neg_hit \<noteq> [] then
            if title_has_impact re_search title
            then (True, ''impact_exception('' @ neg_hit @ '')'')
            else (False, ''negative_keyword('' @ neg_hit @ '')'')
          else (True, ''no_negative_match'')
      | None \<Rightarrow> (True, ''no_negative_match''))"

text \<open>
  Not part of the source: the words of a title, split at blanks, to say what a whole-word
  test would have looked at.
\<close>

fun split_blank :: "string \<Rightarrow> string \<Rightarrow> string list" where
  "split_blank w [] = (if w = [] then [] else [w])"
| "split_blank w (c # cs) =
     (if c = CHR '' '' then (if w = [] then split_blank [] cs else w # split_blank [] cs)
      else split_blank (w @ [c]) cs)"

definition standalone_words :: "string \<Rightarrow> string list" where
  "standalone_words t = split_blank [] t"

section \<open>Facts about the classifier\<close>

lemma neg_keywords_nonempty: "[] \<notin> set NEG_TITLE_KEYWORDS"
  by (simp add: NEG_TITLE_KEYWORDS_def)

lemma find_hit:
  assumes "x \<in> set xs" and "P x"
  obtains y where "find P xs = Some y" and "y \<in> set xs" and "P y"
proof -
  from assms have "find P xs \<noteq> None"
    by (auto simp: find_None_iff)
  then obtain y where y: "find P xs = Some y"
    by blast
  then have "y \<in> set xs" and "P y"
    by (auto simp: find_Some_iff)
  with y show thesis
    by (rule that)
qed

lemma title_should_keep_hit:
  assumes order: "set neg_order = set NEG_TITLE_KEYWORDS"
    and hit: "neg \<in> set NEG_TITLE_KEYWORDS" "contains (lower title) neg"
  obtains n where "n \<in> set NEG_TITLE_KEYWORDS" and "contains (lower title) n"
    and "title_should_keep neg_order re_search title =
           (if title_has_impact re_search title
            then (True, ''impact_exception('' @ n @ '')'')
            else (False, ''negative_keyword('' @ n @ '')''))"
proof -
  from hit order have "neg \<in> set neg_order"
    by simp
  then obtain n where n: "find (contains (lower title)) neg_order = Some n"
      "n \<in> set neg_order" "contains (lower title) n"
    using hit(2) by (rule find_hit)
  from n(2) order have mem: "n \<in> set NEG_TITLE_KEYWORDS"
    by simp
  with neg_keywords_nonempty have "n \<noteq> []"
    by blast
  with n(1) have "title_should_keep neg_order re_search title =
           (if title_has_impact re_search title
            then (True, ''impact_exception('' @ n @ '')'')
            else (False, ''negative_keyword('' @ n @ '')''))"
    by (simp add: title_should_keep_def)
  with mem n(3) show thesis
    by (rule that)
qed

lemma title_has_impact_iff:
  "title_has_impact re_search title \<longleftrightarrow>
     (\<exists>k\<in>set IMPACT_KEYWORDS. contains (lower title) k) \<or>
     (\<exists>p\<in>set IMPACT_PATTERNS. re_search p title)"
  by (auto simp: title_has_impact_def list_ex_iff)

text \<open>
  C2. A title that contains a negative term as a substring of its lower-cased text, and
  also an impact keyword or a match of an impact pattern, is kept, with the reason
  \<open>impact_exception(term)\<close> for a negative term the title contains, whatever the
  iteration order of the negative set.
\<close>

theorem impact_exception_precedence:
  assumes "set neg_order = set NEG_TITLE_KEYWORDS"
    and "\<exists>neg\<in>set NEG_TITLE_KEYWORDS. contains (lower title) neg"
    and "(\<exists>k\<in>set IMPACT_KEYWORDS. contains (lower title) k) \<or>
         (\<exists>p\<in>set IMPACT_PATTERNS. re_search p title)"
  shows "\<exists>neg\<in>set NEG_TITLE_KEYWORDS. contains (lower title) neg \<and>
           title_should_keep neg_order re_search title =
             (True, ''impact_exception('' @ neg @ '')'')"
proof -
  from assms(2) obtain neg where "neg \<in> set NEG_TITLE_KEYWORDS" "contains (lower title) neg"
    by blast
  with assms(1) obtain n where n: "n \<in> set NEG_TITLE_KEYWORDS" "contains (lower title) n"
      "title_should_keep neg_order re_search title =
         (if title_has_impact re_search title
          then (True, ''impact_exception('' @ n @ '')'')
          else (False, ''negative_keyword('' @ n @ '')''))"
    by (rule title_should_keep_hit)
  from assms(3) have "title_has_impact re_search title"
    by (simp add: title_has_impact_iff)
  with n show ?thesis
    by auto
qed

theorem impact_exception_precedence_witness:
  "set NEG_TITLE_KEYWORDS = set NEG_TITLE_KEYWORDS \<and>
   contains (lower ''Bollywood star buys stake'') ''bollywood'' \<and>
   contains (lower ''Bollywood star buys stake'') ''stake'' \<and>
   (\<exists>neg\<in>set NEG_TITLE_KEYWORDS. contains (lower ''Bollywood star buys stake'') neg \<and>
      title_should_keep NEG_TITLE_KEYWORDS (\<lambda>p s. False) ''Bollywood star buys stake'' =
        (True, ''impact_exception('' @ neg @ '')''))"
proof -
  have neg: "contains (lower ''Bollywood star buys stake'') ''bollywood''"
    by code_simp
  have imp: "contains (lower ''Bollywood star buys stake'') ''stake''"
    by code_simp
  have "''bollywood'' \<in> set NEG_TITLE_KEYWORDS"
    by (simp add: NEG_TITLE_KEYWORDS_def)
  with neg have h2: "\<exists>neg\<in>set NEG_TITLE_KEYWORDS. contains (lower ''Bollywood star buys stake'') neg"
    by blast
  have "''stake'' \<in> set IMPACT_KEYWORDS"
    by (simp add: IMPACT_KEYWORDS_def)
  with imp have h3: "(\<exists>k\<in>set IMPACT_KEYWORDS. contains (lower ''Bollywood star buys stake'') k) \<or>
      (\<exists>p\<in>set IMPACT_PATTERNS. (\<lambda>p s. False) p ''Bollywood star buys stake'')"
    by blast
  from impact_exception_precedence [OF refl h2 h3] neg imp show ?thesis
    by simp
qed

text \<open>
  The title "Heavy equipment demand grows": \<open>pm\<close> (inside "equipment") is the only
  negative term in it, no impact keyword occurs in it, and none of its words is a negative
  term.
\<close>

lemma example_neg_hits:
  "filter (contains (lower ''Heavy equipment demand grows'')) NEG_TITLE_KEYWORDS = [''pm'']"
  by code_simp

lemma example_no_impact_keyword:
  "filter (contains (lower ''Heavy equipment demand grows'')) IMPACT_KEYWORDS = []"
  by code_simp

lemma example_no_standalone_neg:
  "list_all (\<lambda>w. w \<notin> set NEG_TITLE_KEYWORDS)
     (standalone_words (lower ''Heavy equipment demand grows''))"
  by code_simp

lemma example_only_pm:
  assumes "n \<in> set NEG_TITLE_KEYWORDS" "contains (lower ''Heavy equipment demand grows'') n"
  shows "n = ''pm''"
proof -
  from assms have "n \<in> set (filter (contains (lower ''Heavy equipment demand grows'')) NEG_TITLE_KEYWORDS)"
    by simp
  then show ?thesis
    by (simp only: example_neg_hits) simp
qed

text \<open>
  C10. The negative test is a substring test on the lower-cased title. Whenever a negative
  term occurs anywhere in it and no impact signal is found, the title is dropped with
  \<open>negative_keyword(term)\<close>; and the title "Heavy equipment demand grows", none of
  whose words is a negative term, is dropped with \<open>negative_keyword(pm)\<close> whenever no
  impact pattern matches it, whatever the iteration order of the negative set.
\<close>

theorem negative_match_is_substring:
  assumes "set neg_order = set NEG_TITLE_KEYWORDS"
  shows "((\<exists>neg\<in>set NEG_TITLE_KEYWORDS. contains (lower title) neg) \<and>
            \<not> title_has_impact re_search title \<longrightarrow>
          (\<exists>neg\<in>set NEG_TITLE_KEYWORDS. contains (lower title) neg \<and>
             title_should_keep neg_order re_search title =
               (False, ''negative_keyword('' @ neg @ '')''))) \<and>
         ((\<forall>p\<in>set IMPACT_PATTERNS. \<not> re_search p ''Heavy equipment demand grows'') \<longrightarrow>
          list_all (\<lambda>w. w \<notin> set NEG_TITLE_KEYWORDS)
            (standalone_words (lower ''Heavy equipment demand grows'')) \<and>
          title_should_keep neg_order re_search ''Heavy equipment demand grows'' =
            (False, ''negative_keyword(pm)''))"
proof (intro conjI impI)
  assume a: "(\<exists>neg\<in>set NEG_TITLE_KEYWORDS. contains (lower title) neg) \<and>
      \<not> title_has_impact re_search title"
  then obtain neg where "neg \<in> set NEG_TITLE_KEYWORDS" "contains (lower title) neg"
    by blast
  with assms obtain n where "n \<in> set NEG_TITLE_KEYWORDS" "contains (lower title) n"
      "title_should_keep neg_order re_search title =
         (if title_has_impact re_search title
          then (True, ''impact_exception('' @ n @ '')'')
          else (False, ''negative_keyword('' @ n @ '')''))"
    by (rule title_should_keep_hit)
  with a show "\<exists>neg\<in>set NEG_TITLE_KEYWORDS. contains (lower title) neg \<and>
      title_should_keep neg_order re_search title = (False, ''negative_keyword('' @ neg @ '')'')"
    by auto
next
  show "list_all (\<lambda>w. w \<notin> set NEG_TITLE_KEYWORDS)
     (standalone_words (lower ''Heavy equipment demand grows''))"
    by (rule example_no_standalone_neg)
next
  assume nopat: "\<forall>p\<in>set IMPACT_PATTERNS. \<not> re_search p ''Heavy equipment demand grows''"
  have "''pm'' \<in> set (filter (contains (lower ''Heavy equipment demand grows'')) NEG_TITLE_KEYWORDS)"
    by (simp only: example_neg_hits) simp
  then have pm: "''pm'' \<in> set NEG_TITLE_KEYWORDS" "contains (lower ''Heavy equipment demand grows'') ''pm''"
    by simp_all
  with assms obtain n where n: "n \<in> set NEG_TITLE_KEYWORDS"
      "contains (lower ''Heavy equipment demand grows'') n"
      "title_should_keep neg_order re_search ''Heavy equipment demand grows'' =
         (if title_has_impact re_search ''Heavy equipment demand grows''
          then (True, ''impact_exception('' @ n @ '')'')
          else (False, ''negative_keyword('' @ n @ '')''))"
    by (rule title_should_keep_hit)
  from n(1,2) have "n = ''pm''"
    by (rule example_only_pm)
  moreover have "\<not> (\<exists>k\<in>set IMPACT_KEYWORDS. contains (lower ''Heavy equipment demand grows'') k)"
    using example_no_impact_keyword by (simp add: filter_empty_conv)
  with nopat have "\<not> title_has_impact re_search ''Heavy equipment demand grows''"
    by (simp add: title_has_impact_iff)
  ultimately show "title_should_keep neg_order re_search ''Heavy equipment demand grows'' =
      (False, ''negative_keyword(pm)'')"
    using n(3) by simp
qed

theorem negative_match_is_substring_witness:
  "set (rev NEG_TITLE_KEYWORDS) = set NEG_TITLE_KEYWORDS \<and>
   contains (lower ''Heavy equipment demand grows'') ''pm'' \<and>
   \<not> title_has_impact (\<lambda>p s. False) ''Heavy equipment demand grows'' \<and>
   title_should_keep (rev NEG_TITLE_KEYWORDS) (\<lambda>p s. False) ''Heavy equipment demand grows'' =
     (False, ''negative_keyword(pm)'')"
proof -
  have order: "set (rev NEG_TITLE_KEYWORDS) = set NEG_TITLE_KEYWORDS"
    by simp
  have pm: "contains (lower ''Heavy equipment demand grows'') ''pm''"
    by code_simp
  have noimp: "\<not> title_has_impact (\<lambda>p s. False) ''Heavy equipment demand grows''"
    using example_no_impact_keyword by (simp add: title_has_impact_iff filter_empty_conv)
  from negative_match_is_substring [OF order, of "''Heavy equipment demand grows''" "\<lambda>p s. False"]
  have "title_should_keep (rev NEG_TITLE_KEYWORDS) (\<lambda>p s. False) ''Heavy equipment demand grows'' =
     (False, ''negative_keyword(pm)'')"
    by simp
  with order pm noimp show ?thesis
    by simp
qed

section \<open>filter.py: timestamps\<close>

text \<open>
  A \<open>datetime\<close> is naive (no time zone) or aware; the number is its position on the
  time line (for an aware one, the instant in UTC). \<open>datetime.fromisoformat\<close> is the
  standard library's: it is the parameter \<open>fromisoformat\<close>, \<open>None\<close> where it raises.
  \<open>datetime.utcnow()\<close> returns a naive datetime; \<open>utcnow n\<close> is what the clock shows at
  the \<open>n\<close>-th reading of a run, and the number of readings made so far is threaded
  through the calls.
\<close>

datatype pydt = Naive int | Aware int

datatype py_error = TypeError | IndexError

definition endswith :: "string \<Rightarrow> string \<Rightarrow> bool" where
  "endswith s p = startswith (rev s) (rev p)"

text \<open>\<open>c.replace("Z", "+00:00")\<close>\<close>

definition replace_Z :: "string \<Rightarrow> string" where
  "replace_Z c = concat (map (\<lambda>ch. if ch = CHR ''Z'' then ''+00:00'' else [ch]) c)"

text \<open>One round of the loop of \<open>parse_dt\<close>: \<open>None\<close> stands for \<open>continue\<close>.\<close>

definition try_fromisoformat :: "(string \<Rightarrow> pydt option) \<Rightarrow> string option \<Rightarrow> pydt option" where
  "try_fromisoformat fromisoformat c =
     (case c of
        None \<Rightarrow> None
      | Some s \<Rightarrow>
          if s = [] then None
          else if CHR ''+'' \<in> set s \<or> endswith s ''Z'' then fromisoformat (replace_Z s)
          else fromisoformat s)"

definition parse_dt ::
  "(string \<Rightarrow> pydt option) \<Rightarrow> (nat \<Rightarrow> int) \<Rightarrow> nat \<Rightarrow> string option \<Rightarrow> string option
     \<Rightarrow> pydt \<times> nat" where
  "parse_dt fromisoformat utcnow n iso_or_none fallback =
     (case try_fromisoformat fromisoformat iso_or_none of
        Some d \<Rightarrow> (d, n)
      | None \<Rightarrow>
          (case try_fromisoformat fromisoformat fallback of
             Some d \<Rightarrow> (d, n)
           | None \<Rightarrow> (Naive (utcnow n), Suc n)))"

text \<open>
  Python orders two naive datetimes, and two aware ones; \<open><\<close> between a naive and an
  aware one raises \<open>TypeError\<close>, while \<open>==\<close> between them is just false. Tuples are
  compared at the first position where they differ.
\<close>

fun dt_lt :: "pydt \<Rightarrow> pydt \<Rightarrow> py_error + bool" where
  "dt_lt (Naive a) (Naive b) = Inr (a < b)"
| "dt_lt (Aware a) (Aware b) = Inr (a < b)"
| "dt_lt (Naive a) (Aware b) = Inl TypeError"
| "dt_lt (Aware a) (Naive b) = Inl TypeError"

definition key_lt :: "pydt \<times> pydt \<Rightarrow> pydt \<times> pydt \<Rightarrow> py_error + bool" where
  "key_lt a b =
     (if fst a \<noteq> fst b then dt_lt (fst a) (fst b)
      else if snd a \<noteq> snd b then dt_lt (snd a) (snd b)
      else Inr False)"

text \<open>
  \<open>sorted(xs, key=...)\<close>: a stable sort that only asks \<open>key x < key y\<close>. Each element is
  put into the sorted part after every element that is not greater; a comparison that
  raises ends the sort.
\<close>

fun insert_sorted :: "('a \<Rightarrow> pydt \<times> pydt) \<Rightarrow> 'a \<Rightarrow> 'a list \<Rightarrow> py_error + 'a list" where
  "insert_sorted key x [] = Inr [x]"
| "insert_sorted key x (y # ys) =
     (case key_lt (key x) (key y) of
        Inl e \<Rightarrow> Inl e
      | Inr True \<Rightarrow> Inr (x # y # ys)
      | Inr False \<Rightarrow>
          (case insert_sorted key x ys of
             Inl e \<Rightarrow> Inl e
           | Inr zs \<Rightarrow> Inr (y # zs)))"

fun sorted_onto :: "('a \<Rightarrow> pydt \<times> pydt) \<Rightarrow> 'a list \<Rightarrow> 'a list \<Rightarrow> py_error + 'a list" where
  "sorted_onto key acc [] = Inr acc"
| "sorted_onto key acc (x # xs) =
     (case insert_sorted key x acc of
        Inl e \<Rightarrow> Inl e
      | Inr acc' \<Rightarrow> sorted_onto key acc' xs)"

definition py_sorted :: "('a \<Rightarrow> pydt \<times> pydt) \<Rightarrow> 'a list \<Rightarrow> py_error + 'a list" where
  "py_sorted key xs = sorted_onto key [] xs"

section \<open>filter.py: greedy dedupe\<close>

text \<open>
  An item is a dict whose values are strings or \<open>None\<close>: \<open>it.get(k)\<close> is \<open>it k\<close>. The
  embeddings are the rows of a matrix of floating-point numbers, of a type \<open>'e\<close> that is left
  open. The product \<open>np.vstack(keptE) @ e\<close> is numpy's, with the rounding of its arithmetic:
  its entry for the kept row \<open>k\<close> is \<open>similarity k e\<close>, where \<open>similarity\<close> is a parameter of
  the model. A float is read as the real number it stands for, so that \<open>mx >= thr\<close> is the
  comparison of two reals (NaN and the infinities, which the product of rows of finite
  floats of length one does not give, are left out). \<open>np.max\<close> and \<open>np.argmax\<close> are only called on a list that is not
  empty; \<open>np.argmax\<close> is the first index of the maximum.
\<close>

type_synonym item = "string \<rightharpoonup> string"

record duplicate_record =
  dup_id :: "string option"
  dup_title :: "string option"
  dup_url :: "string option"
  dup_source :: "string option"
  dup_published_at :: "string option"
  duplicate_of :: "string option"
  duplicate_of_title :: "string option"
  cosine_similarity :: real

definition np_max :: "real list \<Rightarrow> real" where
  "np_max xs = fold max (tl xs) (hd xs)"

definition np_argmax :: "real list \<Rightarrow> nat" where
  "np_argmax xs = length (takeWhile (\<lambda>x. x \<noteq> np_max xs) xs)"

text \<open>\<open>round(mx, 4)\<close>, up to the way a tie at the fifth decimal is broken.\<close>

definition round4 :: "real \<Rightarrow> real" where
  "round4 x = of_int (round (x * 10000)) / 10000"

text \<open>
  The first loop of \<open>greedy_dedupe\<close>: the pair \<open>(_dt_pub, _dt_fetch)\<close> of every item.
  (The loop also stores the two values in the item; they are removed again from the kept
  items before the function returns.)
\<close>

fun stamp_items ::
  "(string \<Rightarrow> pydt option) \<Rightarrow> (nat \<Rightarrow> int) \<Rightarrow> nat \<Rightarrow> item list \<Rightarrow> (pydt \<times> pydt) list" where
  "stamp_items fromisoformat utcnow n [] = []"
| "stamp_items fromisoformat utcnow n (it # its) =
     (let (dt_pub, n1) =
            parse_dt fromisoformat utcnow n (it ''published_at'') (it ''fetched_at'');
          (dt_fetch, n2) =
            parse_dt fromisoformat utcnow n1 (it ''fetched_at'') (it ''fetched_at'')
      in (dt_pub, dt_fetch) # stamp_items fromisoformat utcnow n2 its)"

text \<open>The body of the second loop, on the state \<open>(kept, keptE, dupes)\<close>.\<close>

definition dedupe_step ::
  "('e \<Rightarrow> 'e \<Rightarrow> real) \<Rightarrow> real \<Rightarrow> item list \<times> 'e list \<times> duplicate_record list \<Rightarrow> item \<times> 'e
     \<Rightarrow> item list \<times> 'e list \<times> duplicate_record list" where
  "dedupe_step similarity thr st x =
     (case st of (kept, keptE, dupes) \<Rightarrow>
      case x of (it, e) \<Rightarrow>
        if keptE = [] then (kept @ [it], keptE @ [e], dupes)
        else
          let sims = map (\<lambda>k. similarity k e) keptE;
              j = np_argmax sims;
              mx = np_max sims
          in if mx \<ge> thr
             then (kept, keptE,
                   dupes @ [\<lparr>dup_id = it ''id'', dup_title = it ''title'', dup_url = it ''url'',
                             dup_source = it ''source'',
                             dup_published_at = it ''published_at'',
                             duplicate_of = (kept ! j) ''id'',
                             duplicate_of_title = (kept ! j) ''title'',
                             cosine_similarity = round4 mx\<rparr>])
             else (kept @ [it], keptE @ [e], dupes))"

text \<open>
  \<open>embs[idxs, :]\<close> raises \<open>IndexError\<close> when the matrix has fewer rows than there are
  items.
\<close>

definition greedy_dedupe ::
  "(string \<Rightarrow> pydt option) \<Rightarrow> (nat \<Rightarrow> int) \<Rightarrow> ('e \<Rightarrow> 'e \<Rightarrow> real) \<Rightarrow> item list \<Rightarrow> 'e list \<Rightarrow> real
     \<Rightarrow> py_error + item list \<times> duplicate_record list" where
  "greedy_dedupe fromisoformat utcnow similarity items embs thr =
     (let pub_fetch_pairs = stamp_items fromisoformat utcnow 0 items in
      case py_sorted (\<lambda>k. pub_fetch_pairs ! k) [0..<length items] of
        Inl err \<Rightarrow> Inl err
      | Inr idxs \<Rightarrow>
          if \<exists>k\<in>set idxs. length embs \<le> k then Inl IndexError
          else
            let items_s = map (\<lambda>k. items ! k) idxs;
                E = map (\<lambda>k. embs ! k) idxs
            in case foldl (dedupe_step similarity thr) ([], [], []) (zip items_s E) of
                 (kept, keptE, dupes) \<Rightarrow> Inr (kept, dupes))"

text \<open>
  \<open>SIM_THRESHOLD = 0.70\<close> is a Python float: the double nearest to 0.7, which is
  3152519739159347 / 4503599627370496 (the denominator is the 52nd power of 2), a little
  below 7/10.
\<close>

definition SIM_THRESHOLD :: real where
  "SIM_THRESHOLD = 3152519739159347 / 4503599627370496"

subsection \<open>A sample of the inputs\<close>

text \<open>
  What \<open>datetime.fromisoformat\<close> returns on the three strings the examples use (seconds
  since the start of 2025-01-01), and four items. The examples take rows of two floats
  whose entries are 0, 1 and the threshold: on these the product of numpy is the exact one,
  \<open>dot\<close>, since multiplying a float by 1 or by 0 and adding 0 to a float round nothing.
\<close>

definition dot :: "real list \<Rightarrow> real list \<Rightarrow> real" where
  "dot u v = sum_list (map2 (*) u v)"

definition fromisoformat_sample :: "string \<Rightarrow> pydt option" where
  "fromisoformat_sample s =
     (if s = ''2025-01-01T08:00:00'' then Some (Naive 28800)
      else if s = ''2025-01-01T10:00:00'' then Some (Naive 36000)
      else if s = ''2025-01-01T09:00:00+00:00'' then Some (Aware 32400)
      else None)"

definition item_early :: item where
  "item_early = [''id'' \<mapsto> ''early'', ''title'' \<mapsto> ''Rate cut lifts banks'',
                 ''published_at'' \<mapsto> ''2025-01-01T08:00:00'',
                 ''fetched_at'' \<mapsto> ''2025-01-01T10:00:00'']"

definition item_late :: item where
  "item_late = [''id'' \<mapsto> ''late'', ''title'' \<mapsto> ''Banks gain on rate cut'',
                ''published_at'' \<mapsto> ''2025-01-01T10:00:00'',
                ''fetched_at'' \<mapsto> ''2025-01-01T10:00:00'']"

definition item_utc :: item where
  "item_utc = [''id'' \<mapsto> ''utc'', ''title'' \<mapsto> ''Banks rally after rate cut'',
               ''published_at'' \<mapsto> ''2025-01-01T09:00:00Z'',
               ''fetched_at'' \<mapsto> ''2025-01-01T10:00:00'']"

definition item_undated :: item where
  "item_undated = [''id'' \<mapsto> ''undated'', ''title'' \<mapsto> ''Rate cut: banks gain'']"

text \<open>The ids of the kept items, and who is a duplicate of whom.\<close>

definition result_ids ::
  "py_error + item list \<times> duplicate_record list
     \<Rightarrow> py_error + string option list \<times> (string option \<times> string option) list" where
  "result_ids r =
     (case r of
        Inl err \<Rightarrow> Inl err
      | Inr (kept, dupes) \<Rightarrow>
          Inr (map (\<lambda>it. it ''id'') kept, map (\<lambda>d. (dup_id d, duplicate_of d)) dupes))"

lemmas sample_defs = fromisoformat_sample_def item_early_def item_late_def item_utc_def item_undated_def
lemmas dedupe_defs = greedy_dedupe_def py_sorted_def key_lt_def parse_dt_def try_fromisoformat_def
  endswith_def replace_Z_def dedupe_step_def dot_def np_max_def np_argmax_def result_ids_def

subsection \<open>The maximum and its index\<close>

lemma np_max_Max: "xs \<noteq> [] \<Longrightarrow> np_max xs = Max (set xs)"
proof (cases xs)
  case Nil
  assume "xs \<noteq> []"
  with Nil show ?thesis
    by simp
next
  case (Cons a list)
  then show ?thesis
    using Max.set_eq_fold [of a list] by (simp add: np_max_def)
qed

lemma first_index_less: "x \<in> set xs \<Longrightarrow> length (takeWhile (\<lambda>y. y \<noteq> x) xs) < length xs"
  by (induction xs) auto

lemma np_argmax_less: "xs \<noteq> [] \<Longrightarrow> np_argmax xs < length xs"
proof -
  assume "xs \<noteq> []"
  then have "np_max xs \<in> set xs"
    by (simp add: np_max_Max)
  then show ?thesis
    unfolding np_argmax_def by (rule first_index_less)
qed

lemma np_argmax_nth: "xs \<noteq> [] \<Longrightarrow> xs ! np_argmax xs = np_max xs"
proof -
  assume ne: "xs \<noteq> []"
  then have lt: "np_argmax xs < length xs"
    by (rule np_argmax_less)
  then have "\<not> (\<lambda>x. x \<noteq> np_max xs) (xs ! length (takeWhile (\<lambda>x. x \<noteq> np_max xs) xs))"
    unfolding np_argmax_def by (rule nth_length_takeWhile)
  then show ?thesis
    by (simp add: np_argmax_def)
qed

subsection \<open>The threshold\<close>

text \<open>
  C3. Whatever numpy computes for the similarities: when the largest similarity of an item
  to the kept rows is exactly the threshold, the item is not kept. The step leaves \<open>kept\<close>
  as it is and records a duplicate of the kept item at the index of that maximum, whose
  similarity to the item is the threshold, no kept row having a larger one. The comparison
  is \<open>mx >= thr\<close>.
\<close>

theorem threshold_is_inclusive:
  assumes "keptE \<noteq> []"
    and "np_max (map (\<lambda>k. similarity k e) keptE) = thr"
  shows "\<exists>d. dedupe_step similarity thr (kept, keptE, dupes) (it, e) =
             (kept, keptE, dupes @ [d]) \<and>
           dup_id d = it ''id'' \<and>
           duplicate_of d = (kept ! np_argmax (map (\<lambda>k. similarity k e) keptE)) ''id'' \<and>
           similarity (keptE ! np_argmax (map (\<lambda>k. similarity k e) keptE)) e = thr \<and>
           (\<forall>k\<in>set keptE. similarity k e \<le> thr)"
proof -
  let ?sims = "map (\<lambda>k. similarity k e) keptE"
  from assms(1) have ne: "?sims \<noteq> []"
    by simp
  then have "np_argmax ?sims < length ?sims" "?sims ! np_argmax ?sims = np_max ?sims"
    by (rule np_argmax_less, rule np_argmax_nth)
  with assms(2) have at: "similarity (keptE ! np_argmax ?sims) e = thr"
    by simp
  from ne assms(2) have "Max (set ?sims) = thr"
    by (simp add: np_max_Max)
  then have "\<forall>x\<in>set ?sims. x \<le> thr"
    using Max_ge [of "set ?sims"] by auto
  then have le: "\<forall>k\<in>set keptE. similarity k e \<le> thr"
    by simp
  from assms at le show ?thesis
    by (simp add: dedupe_step_def Let_def)
qed

text \<open>
  At the default threshold: the kept row is (1, 0), the row of the item is (0.70, 0), and
  their product is 0.70.
\<close>

theorem threshold_is_inclusive_witness:
  "np_max (map (\<lambda>k. dot k [SIM_THRESHOLD, 0]) [[1, 0]]) = SIM_THRESHOLD \<and>
   (\<exists>d. dedupe_step dot SIM_THRESHOLD ([item_early], [[1, 0]], [])
          (item_late, [SIM_THRESHOLD, 0]) = ([item_early], [[1, 0]], [d]) \<and>
        dup_id d = Some ''late'' \<and> duplicate_of d = Some ''early'')"
proof -
  have mx: "np_max (map (\<lambda>k. dot k [SIM_THRESHOLD, 0]) [[1, 0]]) = SIM_THRESHOLD"
    by (simp add: np_max_def dot_def)
  have am: "np_argmax (map (\<lambda>k. dot k [SIM_THRESHOLD, 0]) [[1, 0]]) = 0"
    by (simp add: np_argmax_def np_max_def dot_def)
  have ne: "[[1, 0 :: real]] \<noteq> []"
    by simp
  from threshold_is_inclusive [where similarity = dot and keptE = "[[1, 0]]"
      and e = "[SIM_THRESHOLD, 0]" and thr = SIM_THRESHOLD and kept = "[item_early]"
      and dupes = "[]" and it = item_late, OF ne mx]
  obtain d where d:
      "dedupe_step dot SIM_THRESHOLD ([item_early], [[1, 0]], [])
         (item_late, [SIM_THRESHOLD, 0]) = ([item_early], [[1, 0]], [] @ [d])"
      "dup_id d = item_late ''id''"
      "duplicate_of d =
         ([item_early] ! np_argmax (map (\<lambda>k. dot k [SIM_THRESHOLD, 0]) [[1, 0]])) ''id''"
    by blast
  from d(2) have "dup_id d = Some ''late''"
    by (simp add: item_late_def)
  moreover from d(3) am have "duplicate_of d = Some ''early''"
    by (simp add: item_early_def)
  ultimately show ?thesis
    using d(1) mx by auto
qed

text \<open>
  The same through \<open>greedy_dedupe\<close>, at the default threshold 0.70: the item published later
  is the duplicate. With a similarity just below the threshold, both items are kept.
\<close>

lemma dedupe_at_default_threshold:
  "result_ids (greedy_dedupe fromisoformat_sample (\<lambda>n. 0) dot [item_late, item_early]
     [[SIM_THRESHOLD, 0], [1, 0]] SIM_THRESHOLD) =
   Inr ([Some ''early''], [(Some ''late'', Some ''early'')])"
  by (simp add: dedupe_defs sample_defs upt_rec)

lemma dedupe_below_default_threshold:
  "result_ids (greedy_dedupe fromisoformat_sample (\<lambda>n. 0) dot [item_late, item_early]
     [[SIM_THRESHOLD - 1 / 2 ^ 53, 0], [1, 0]] SIM_THRESHOLD) =
   Inr ([Some ''early'', Some ''late''], [])"
  by (simp add: dedupe_defs sample_defs upt_rec)

subsection \<open>The clock\<close>

lemma parse_dt_fallback_parses:
  assumes "try_fromisoformat fromisoformat fallback = Some d"
  shows "parse_dt fromisoformat utcnow n iso_or_none fallback =
           (case try_fromisoformat fromisoformat iso_or_none of Some p \<Rightarrow> p | None \<Rightarrow> d, n)"
  using assms by (simp add: parse_dt_def split: option.splits)

lemma stamp_items_no_clock:
  assumes "\<forall>it\<in>set items. try_fromisoformat fromisoformat (it ''fetched_at'') \<noteq> None"
  shows "stamp_items fromisoformat utcnow n items = stamp_items fromisoformat utcnow' n' items"
  using assms
proof (induction items arbitrary: n n')
  case Nil
  show ?case
    by simp
next
  case (Cons it items)
  from Cons.prems obtain d where d: "try_fromisoformat fromisoformat (it ''fetched_at'') = Some d"
    by auto
  from Cons.prems have rest: "\<forall>it\<in>set items. try_fromisoformat fromisoformat (it ''fetched_at'') \<noteq> None"
    by simp
  have "stamp_items fromisoformat utcnow n items = stamp_items fromisoformat utcnow' n' items"
    using rest by (rule Cons.IH)
  then show ?case
    by (simp add: parse_dt_fallback_parses [OF d])
qed

text \<open>
  C9, as amended. When every item has a \<open>fetched_at\<close> that parses, no timestamp is taken
  from the clock, and two runs on the same items, vectors and threshold give the same
  result, whatever the clock shows during either run.
\<close>

theorem dedupe_deterministic_without_fallback:
  assumes "\<forall>it\<in>set items. try_fromisoformat fromisoformat (it ''fetched_at'') \<noteq> None"
  shows "greedy_dedupe fromisoformat utcnow similarity items embs thr =
         greedy_dedupe fromisoformat utcnow' similarity items embs thr"
  using stamp_items_no_clock [OF assms, of utcnow 0 utcnow' 0]
  by (simp add: greedy_dedupe_def)

text \<open>
  C9, as stated, fails: an item with no timestamp that parses is stamped with the time of
  the run. A run at 09:00 puts it before an item published at 10:00 and keeps it; a run at
  11:00 puts it after, and makes it the duplicate.
\<close>

theorem dedupe_fallback_counterexample:
  "result_ids (greedy_dedupe fromisoformat_sample (\<lambda>n. 32400) dot [item_late, item_undated]
     [[1, 0], [1, 0]] SIM_THRESHOLD) =
     Inr ([Some ''undated''], [(Some ''late'', Some ''undated'')]) \<and>
   result_ids (greedy_dedupe fromisoformat_sample (\<lambda>n. 39600) dot [item_late, item_undated]
     [[1, 0], [1, 0]] SIM_THRESHOLD) =
     Inr ([Some ''late''], [(Some ''undated'', Some ''late'')])"
  by (simp add: dedupe_defs sample_defs SIM_THRESHOLD_def upt_rec)

theorem dedupe_deterministic_without_fallback_witness:
  "try_fromisoformat fromisoformat_sample (item_late ''fetched_at'') \<noteq> None \<and>
   try_fromisoformat fromisoformat_sample (item_early ''fetched_at'') \<noteq> None \<and>
   greedy_dedupe fromisoformat_sample (\<lambda>n. 32400) dot [item_late, item_early] [[1, 0], [1, 0]]
       SIM_THRESHOLD =
     greedy_dedupe fromisoformat_sample (\<lambda>n. 39600) dot [item_late, item_early] [[1, 0], [1, 0]]
       SIM_THRESHOLD \<and>
   result_ids (greedy_dedupe fromisoformat_sample (\<lambda>n. 39600) dot [item_late, item_early]
       [[1, 0], [1, 0]] SIM_THRESHOLD) =
     Inr ([Some ''early''], [(Some ''late'', Some ''early'')])"
proof -
  have p1: "try_fromisoformat fromisoformat_sample (item_late ''fetched_at'') \<noteq> None"
    by (simp add: dedupe_defs sample_defs)
  have p2: "try_fromisoformat fromisoformat_sample (item_early ''fetched_at'') \<noteq> None"
    by (simp add: dedupe_defs sample_defs)
  from p1 p2 have "\<forall>it\<in>set [item_late, item_early].
      try_fromisoformat fromisoformat_sample (it ''fetched_at'') \<noteq> None"
    by simp
  from dedupe_deterministic_without_fallback [OF this, of "\<lambda>n. 32400" dot "[[1, 0], [1, 0]]"
      SIM_THRESHOLD "\<lambda>n. 39600"]
  have eq: "greedy_dedupe fromisoformat_sample (\<lambda>n. 32400) dot [item_late, item_early] [[1, 0], [1, 0]]
       SIM_THRESHOLD =
     greedy_dedupe fromisoformat_sample (\<lambda>n. 39600) dot [item_late, item_early] [[1, 0], [1, 0]]
       SIM_THRESHOLD" .
  have "result_ids (greedy_dedupe fromisoformat_sample (\<lambda>n. 39600) dot [item_late, item_early]
       [[1, 0], [1, 0]] SIM_THRESHOLD) =
     Inr ([Some ''early''], [(Some ''late'', Some ''early'')])"
    by (simp add: dedupe_defs sample_defs SIM_THRESHOLD_def upt_rec)
  with p1 p2 eq show ?thesis
    by blast
qed

subsection \<open>Naive and aware timestamps in one batch\<close>

text \<open>
  C1. \<open>greedy_dedupe\<close> on two items, one published at "2025-01-01T09:00:00Z" (an aware
  datetime) and one at "2025-01-01T10:00:00" (a naive one): the sort compares the two
  and raises \<open>TypeError\<close>; nothing is sorted, kept or recorded.
\<close>

theorem dedupe_mixed_timezones_raise:
  "greedy_dedupe fromisoformat_sample utcnow similarity [item_utc, item_late]
     [[1, 0], [1, 0 :: real]] SIM_THRESHOLD = Inl TypeError"
  by (simp add: dedupe_defs sample_defs upt_rec)

text \<open>
  The fallback of \<open>parse_dt\<close> is naive as well: an item without timestamps among aware
  ones ends the run in the same way.
\<close>

lemma dedupe_undated_among_aware_raises:
  "greedy_dedupe fromisoformat_sample utcnow similarity [item_utc, item_undated]
     [[1, 0], [1, 0 :: real]] SIM_THRESHOLD = Inl TypeError"
  by (simp add: dedupe_defs sample_defs upt_rec)

subsection \<open>Batches whose timestamps can be compared\<close>

text \<open>
  When the published timestamps of a batch are all naive or all aware, and so are the
  fetched ones, no comparison raises, and the sort is the stable sort by the pair of
  positions on the time line.
\<close>

fun is_naive :: "pydt \<Rightarrow> bool" where
  "is_naive (Naive a) = True"
| "is_naive (Aware a) = False"

fun stamp_of :: "pydt \<Rightarrow> int" where
  "stamp_of (Naive a) = a"
| "stamp_of (Aware a) = a"

definition stamps :: "pydt \<times> pydt \<Rightarrow> int \<times> int" where
  "stamps k = (stamp_of (fst k), stamp_of (snd k))"

fun insert_after :: "('a \<Rightarrow> int \<times> int) \<Rightarrow> 'a \<Rightarrow> 'a list \<Rightarrow> 'a list" where
  "insert_after f x [] = [x]"
| "insert_after f x (y # ys) = (if f x < f y then x # y # ys else y # insert_after f x ys)"

lemma dt_lt_same_kind:
  "is_naive a = is_naive b \<Longrightarrow> dt_lt a b = Inr (stamp_of a < stamp_of b)"
  by (cases a; cases b) simp_all

lemma dt_eq_same_kind: "is_naive a = is_naive b \<Longrightarrow> a = b \<longleftrightarrow> stamp_of a = stamp_of b"
  by (cases a; cases b) simp_all

lemma key_lt_same_kinds:
  assumes "is_naive (fst a) = is_naive (fst b)" and "is_naive (snd a) = is_naive (snd b)"
  shows "key_lt a b = Inr (stamps a < stamps b)"
  using assms dt_eq_same_kind [of "fst a" "fst b"] dt_eq_same_kind [of "snd a" "snd b"]
  by (auto simp: key_lt_def stamps_def dt_lt_same_kind less_prod_def)

lemma insert_sorted_same_kinds:
  assumes "\<forall>y\<in>set (x # ys). is_naive (fst (key y)) = np \<and> is_naive (snd (key y)) = nf"
  shows "insert_sorted key x ys = Inr (insert_after (\<lambda>y. stamps (key y)) x ys)"
  using assms
proof (induction ys)
  case Nil
  show ?case
    by simp
next
  case (Cons y ys)
  from Cons.prems have "key_lt (key x) (key y) = Inr (stamps (key x) < stamps (key y))"
    by (intro key_lt_same_kinds) simp_all
  moreover from Cons.prems
  have "\<forall>y\<in>set (x # ys). is_naive (fst (key y)) = np \<and> is_naive (snd (key y)) = nf"
    by simp
  then have "insert_sorted key x ys = Inr (insert_after (\<lambda>y. stamps (key y)) x ys)"
    by (rule Cons.IH)
  ultimately show ?case
    by simp
qed

lemma set_insert_after: "set (insert_after f x ys) = insert x (set ys)"
  by (induction ys) auto

lemma sorted_onto_same_kinds:
  assumes "\<forall>y\<in>set (acc @ xs). is_naive (fst (key y)) = np \<and> is_naive (snd (key y)) = nf"
  shows "sorted_onto key acc xs =
           Inr (foldl (\<lambda>acc x. insert_after (\<lambda>y. stamps (key y)) x acc) acc xs)"
  using assms
proof (induction xs arbitrary: acc)
  case Nil
  show ?case
    by simp
next
  case (Cons x xs)
  from Cons.prems
  have "\<forall>y\<in>set (x # acc). is_naive (fst (key y)) = np \<and> is_naive (snd (key y)) = nf"
    by simp
  then have one: "insert_sorted key x acc = Inr (insert_after (\<lambda>y. stamps (key y)) x acc)"
    by (rule insert_sorted_same_kinds)
  from Cons.prems
  have "\<forall>y\<in>set (insert_after (\<lambda>y. stamps (key y)) x acc @ xs).
      is_naive (fst (key y)) = np \<and> is_naive (snd (key y)) = nf"
    by (simp add: set_insert_after)
  then have "sorted_onto key (insert_after (\<lambda>y. stamps (key y)) x acc) xs =
      Inr (foldl (\<lambda>acc x. insert_after (\<lambda>y. stamps (key y)) x acc)
             (insert_after (\<lambda>y. stamps (key y)) x acc) xs)"
    by (rule Cons.IH)
  with one show ?case
    by simp
qed

lemma insort_insert_after:
  "insort_key f a (insert_after f x ys) = insert_after f x (insort_key f a ys)"
  by (induction ys) auto

lemma sort_key_snoc: "sort_key f (xs @ [x]) = insert_after f x (sort_key f xs)"
  by (induction xs) (simp_all add: insort_insert_after)

lemma foldl_insert_after: "foldl (\<lambda>acc x. insert_after f x acc) [] xs = sort_key f xs"
  by (induction xs rule: rev_induct) (simp_all add: sort_key_snoc)

lemma py_sorted_same_kinds:
  assumes "\<forall>y\<in>set xs. is_naive (fst (key y)) = np \<and> is_naive (snd (key y)) = nf"
  shows "py_sorted key xs = Inr (sort_key (\<lambda>y. stamps (key y)) xs)"
  using sorted_onto_same_kinds [of "[]" xs key np nf] assms
  by (simp add: py_sorted_def foldl_insert_after)

lemma kept_grows:
  "\<exists>more. fst (foldl (dedupe_step similarity thr) (kept, keptE, dupes) xs) = kept @ more"
proof (induction xs arbitrary: kept keptE dupes)
  case Nil
  show ?case
    by simp
next
  case (Cons x xs)
  obtain k kE d where step: "dedupe_step similarity thr (kept, keptE, dupes) x = (k, kE, d)"
    by (cases "dedupe_step similarity thr (kept, keptE, dupes) x") auto
  then have "k = kept \<or> k = kept @ [fst x]"
    by (cases x) (auto simp: dedupe_step_def Let_def split: if_splits)
  moreover from Cons.IH [of k kE d] obtain more where
      "fst (foldl (dedupe_step similarity thr) (k, kE, d) xs) = k @ more"
    by blast
  ultimately show ?case
    using step by auto
qed

lemma first_item_kept:
  "\<exists>more. fst (foldl (dedupe_step similarity thr) ([], [], []) ((it, e) # rest)) = it # more"
  using kept_grows [of similarity thr "[it]" "[e]" "[]" rest] by (simp add: dedupe_step_def)

lemma greedy_dedupe_same_kinds:
  assumes "\<forall>p\<in>set (stamp_items fromisoformat utcnow 0 items).
             is_naive (fst p) = np \<and> is_naive (snd p) = nf"
    and "length items \<le> length embs"
  shows "greedy_dedupe fromisoformat utcnow similarity items embs thr =
     (let pairs = stamp_items fromisoformat utcnow 0 items;
          idxs = sort_key (\<lambda>k. stamps (pairs ! k)) [0..<length items]
      in case foldl (dedupe_step similarity thr) ([], [], [])
                (zip (map (\<lambda>k. items ! k) idxs) (map (\<lambda>k. embs ! k) idxs)) of
           (kept, keptE, dupes) \<Rightarrow> Inr (kept, dupes))"
proof -
  let ?pairs = "stamp_items fromisoformat utcnow 0 items"
  have len: "length ?pairs = length items"
  proof -
    have "length (stamp_items fromisoformat utcnow n its) = length its" for n its
      by (induction its arbitrary: n) (auto split: prod.splits)
    then show ?thesis .
  qed
  with assms(1) have "\<forall>k\<in>set [0..<length items].
      is_naive (fst (?pairs ! k)) = np \<and> is_naive (snd (?pairs ! k)) = nf"
    by simp
  then have sorted: "py_sorted (\<lambda>k. ?pairs ! k) [0..<length items] =
      Inr (sort_key (\<lambda>k. stamps (?pairs ! k)) [0..<length items])"
    by (rule py_sorted_same_kinds)
  have "\<not> (\<exists>k\<in>set (sort_key (\<lambda>k. stamps (?pairs ! k)) [0..<length items]). length embs \<le> k)"
    using assms(2) by auto
  with sorted show ?thesis
    by (simp add: greedy_dedupe_def Let_def)
qed

text \<open>
  The second loop, on an item that meets kept vectors: it is recorded as a duplicate of the
  kept item at the index of the largest similarity when that similarity reaches the
  threshold, and is appended to the kept items otherwise.
\<close>

lemma dedupe_step_duplicate:
  assumes "keptE \<noteq> []" and "thr \<le> np_max (map (\<lambda>k. similarity k e) keptE)"
  shows "\<exists>d. dedupe_step similarity thr (kept, keptE, dupes) (it, e) = (kept, keptE, dupes @ [d]) \<and>
           dup_id d = it ''id'' \<and>
           duplicate_of d = (kept ! np_argmax (map (\<lambda>k. similarity k e) keptE)) ''id'' \<and>
           similarity (keptE ! np_argmax (map (\<lambda>k. similarity k e) keptE)) e =
             Max (set (map (\<lambda>k. similarity k e) keptE))"
proof -
  let ?sims = "map (\<lambda>k. similarity k e) keptE"
  from assms(1) have ne: "?sims \<noteq> []"
    by simp
  then have "np_argmax ?sims < length ?sims" "?sims ! np_argmax ?sims = np_max ?sims"
      "np_max ?sims = Max (set ?sims)"
    by (rule np_argmax_less, rule np_argmax_nth, rule np_max_Max)
  then have "similarity (keptE ! np_argmax ?sims) e = Max (set ?sims)"
    by simp
  with assms show ?thesis
    by (simp add: dedupe_step_def Let_def)
qed

lemma dedupe_step_kept:
  assumes "keptE = [] \<or> np_max (map (\<lambda>k. similarity k e) keptE) < thr"
  shows "dedupe_step similarity thr (kept, keptE, dupes) (it, e) = (kept @ [it], keptE @ [e], dupes)"
  using assms by (auto simp: dedupe_step_def Let_def)

section \<open>Python values and whitespace\<close>

text \<open>
  The values an article dict holds: what JSON has, and \<open>datetime\<close> (seconds on the time
  line). \<open>str.strip\<close> and the whitespace class of \<open>re\<close> take for whitespace the
  characters of \<open>str.isspace\<close>: below 256 these are the code points 9 to 13, 28 to 32,
  U+0085 (next line) and U+00A0 (no-break space).
\<close>

datatype val =
  Null | Bool bool | Num real | Str string | Datetime int
  | Arr "val list" | Obj "(string \<times> val) list"

definition isspace :: "char \<Rightarrow> bool" where
  "isspace c \<longleftrightarrow>
     c \<in> set [CHR 0x09, CHR 0x0A, CHR 0x0B, CHR 0x0C, CHR 0x0D,
               CHR 0x1C, CHR 0x1D, CHR 0x1E, CHR 0x1F, CHR '' '', CHR 0x85, CHR 0xA0]"

definition lstrip :: "string \<Rightarrow> string" where
  "lstrip s = dropWhile isspace s"

definition rstrip :: "string \<Rightarrow> string" where
  "rstrip s = rev (dropWhile isspace (rev s))"

definition strip :: "string \<Rightarrow> string" where
  "strip s = rstrip (lstrip s)"

section \<open>db_loader.py\<close>

text \<open>
  A document is a dict; a collection maps the \<open>_id\<close> of a document to the document.
  \<open>uuid.uuid4()\<close> and \<open>datetime.utcnow()\<close> are read from the environment: \<open>_make_doc\<close>
  takes the two readings as arguments.
\<close>

type_synonym doc = "string \<rightharpoonup> val"
type_synonym collection = "val \<rightharpoonup> doc"

text \<open>\<open>timedelta(hours=h)\<close>, in seconds.\<close>

definition hours :: "int \<Rightarrow> int" where
  "hours h = h * 3600"

text \<open>
  \<open>_id = doc.get("id"); if not isinstance(_id, str) or not _id.strip(): _id =
  str(uuid.uuid4())\<close>
\<close>

definition choose_id :: "string \<Rightarrow> val option \<Rightarrow> string" where
  "choose_id uuid4 v =
     (case v of
        Some (Str s) \<Rightarrow> if strip s \<noteq> [] then s else uuid4
      | _ \<Rightarrow> uuid4)"

definition make_doc :: "string \<Rightarrow> int \<Rightarrow> doc \<Rightarrow> doc" where
  "make_doc uuid4 utcnow raw =
     (let doc = raw;
          doc = doc(''entities'' := None);
          new_id = choose_id uuid4 (doc ''id'');
          doc = doc(''_id'' \<mapsto> Str new_id);
          doc = doc(''article_id'' := doc ''_id'');
          stored_at = utcnow;
          doc = doc(''stored_at'' \<mapsto> Datetime stored_at);
          doc = doc(''expires_at'' \<mapsto> Datetime (stored_at + hours 36))
      in doc)"

text \<open>
  The store is MongoDB, not this repository's code. \<open>coll.update_one({"_id": k}, {"$set":
  to_set}, upsert=True)\<close> on a collection: a document with that \<open>_id\<close> has the fields of
  \<open>to_set\<close> overwritten and keeps its other fields; when there is none, the document made
  of the \<open>_id\<close> and \<open>to_set\<close> is inserted. The result is the new collection with
  \<open>matched_count\<close> and \<open>upserted_id\<close>; \<open>None\<close> stands for a call that raises.
\<close>

definition mongo_update_one ::
  "collection \<Rightarrow> val \<Rightarrow> doc \<Rightarrow> (collection \<times> nat \<times> val option) option" where
  "mongo_update_one coll k to_set =
     (case coll k of
        Some old \<Rightarrow> Some (coll(k \<mapsto> old ++ to_set), 1, None)
      | None \<Rightarrow> Some (coll(k \<mapsto> [''_id'' \<mapsto> k] ++ to_set), 0, Some k))"

text \<open>\<open>_upsert_one\<close>, with the collection's \<open>update_one\<close> as a parameter.\<close>

definition upsert_one ::
  "(collection \<Rightarrow> val \<Rightarrow> doc \<Rightarrow> (collection \<times> nat \<times> val option) option)
     \<Rightarrow> collection \<Rightarrow> doc \<Rightarrow> (collection \<times> string) option" where
  "upsert_one update_one coll doc =
     (let to_set = doc(''_id'' := None) in
      case doc ''_id'' of
        None \<Rightarrow> None
      | Some k \<Rightarrow>
          (case update_one coll k to_set of
             None \<Rightarrow> None
           | Some (coll', matched_count, upserted_id) \<Rightarrow>
               if matched_count = 0 \<and> upserted_id \<noteq> None then Some (coll', ''inserted'')
               else Some (coll', ''updated'')))"


text \<open>
  What \<open>save\<close> meets outside the program: whether the \<open>k\<close>-th attempt to reach the primary
  server succeeds, the fallback URI and whether that server answers, whether
  \<open>_ensure_collection\<close> returns or raises, the collection's \<open>update_one\<close>, and the uuid and
  the clock reading for the \<open>i\<close>-th document of the batch.
\<close>

datatype db_error = PyMongoError

record world =
  ping :: "nat \<Rightarrow> bool"
  fallback_uri :: string
  ping_fallback :: bool
  ensure_ok :: bool
  update_one :: "collection \<Rightarrow> val \<Rightarrow> doc \<Rightarrow> (collection \<times> nat \<times> val option) option"
  fresh_uuid :: "nat \<Rightarrow> string"
  clock :: "nat \<Rightarrow> int"

text \<open>
  What \<open>save\<close> does: the value it returns (\<open>Inl\<close> when an exception leaves it), the
  collection afterwards, the delays it slept, the number of connection attempts on the
  primary server, and the counts of its summary line (inserted, updated, failed).
\<close>

record outcome =
  returned :: "db_error + nat"
  store :: collection
  slept :: "real list"
  tried :: nat
  summary :: "(nat \<times> nat \<times> nat) option"

definition max_attempts :: nat where
  "max_attempts = 4"

text \<open>The \<open>while attempts < max_attempts and client is None\<close> loop.\<close>

function connect_loop ::
  "(nat \<Rightarrow> bool) \<Rightarrow> nat \<Rightarrow> real \<Rightarrow> real list \<Rightarrow> bool \<times> nat \<times> real list" where
  "connect_loop try_connect attempts backoff naps =
     (if attempts < max_attempts then
        if try_connect (Suc attempts) then (True, Suc attempts, naps)
        else if Suc attempts < max_attempts
          then connect_loop try_connect (Suc attempts) (backoff * 2) (naps @ [backoff])
          else connect_loop try_connect (Suc attempts) backoff naps
      else (False, attempts, naps))"
  by pat_completeness auto
termination
  by (relation "measure (\<lambda>(t, attempts, b, n). max_attempts - attempts)") auto

declare connect_loop.simps [simp del]

text \<open>The body of \<open>for raw in items\<close>; a document whose upsert raises leaves the store alone.\<close>

definition write_step ::
  "world \<Rightarrow> collection \<times> nat \<times> nat \<times> nat \<Rightarrow> nat \<times> doc \<Rightarrow> collection \<times> nat \<times> nat \<times> nat" where
  "write_step w st x =
     (case st of (coll, ins, upd, fail) \<Rightarrow>
        (case x of (i, raw) \<Rightarrow>
           (let doc = make_doc (fresh_uuid w i) (clock w i) raw in
            (case upsert_one (update_one w) coll doc of
               None \<Rightarrow> (coll, ins, upd, fail + 1)
             | Some (coll', res) \<Rightarrow>
                 if res = ''inserted'' then (coll', ins + 1, upd, fail)
                 else (coll', ins, upd + 1, fail)))))"

definition save :: "world \<Rightarrow> doc list \<Rightarrow> collection \<Rightarrow> outcome" where
  "save w items coll =
     (if items = [] then
        \<lparr>returned = Inr 0, store = coll, slept = [], tried = 0, summary = None\<rparr>
      else
        case connect_loop (ping w) 0 2 [] of (reached, attempts, naps) \<Rightarrow>
          let client = (if reached then True
                        else if fallback_uri w \<noteq> [] then ping_fallback w
                        else False)
          in if \<not> client then
               \<lparr>returned = Inr 0, store = coll, slept = naps, tried = attempts, summary = None\<rparr>
             else if \<not> ensure_ok w then
               \<lparr>returned = Inl PyMongoError, store = coll, slept = naps, tried = attempts,
                summary = None\<rparr>
             else
               case foldl (write_step w) (coll, 0, 0, 0) (enumerate 0 items) of
                 (coll', ins, upd, fail) \<Rightarrow>
                   \<lparr>returned = Inr (ins + upd), store = coll', slept = naps, tried = attempts,
                    summary = Some (ins, upd, fail)\<rparr>)"


subsection \<open>Sample articles and a server that answers\<close>

definition article_a1 :: doc where
  "article_a1 =
     [''id'' \<mapsto> Str ''a1'', ''title'' \<mapsto> Str ''Rate cut lifts banks'',
      ''entities'' \<mapsto> Arr [Obj [(''type'', Str ''ORG''), (''value'', Str ''RBI'')]]]"



definition article_blank_id :: doc where
  "article_blank_id = [''id'' \<mapsto> Str ''  '', ''title'' \<mapsto> Str ''Rupee steady'']"

text \<open>An \<open>id\<close> made of a no-break space and a space.\<close>

definition article_nbsp_id :: doc where
  "article_nbsp_id = [''id'' \<mapsto> Str [CHR 0xA0, CHR '' ''], ''title'' \<mapsto> Str ''Rupee steady'']"

definition world_up :: "int \<Rightarrow> world" where
  "world_up now =
     \<lparr>ping = (\<lambda>k. True), fallback_uri = [], ping_fallback = False, ensure_ok = True,
      update_one = mongo_update_one, fresh_uuid = (\<lambda>i. ''generated''), clock = (\<lambda>i. now)\<rparr>"

lemmas strip_defs = strip_def lstrip_def rstrip_def isspace_def
lemmas save_defs = save_def connect_loop.simps write_step_def upsert_one_def
  mongo_update_one_def make_doc_def choose_id_def hours_def max_attempts_def enumerate_eq_zip
  Let_def

subsection \<open>What is written\<close>

lemma make_doc_fields:
  "make_doc uuid4 now raw ''_id'' = Some (Str (choose_id uuid4 (raw ''id'')))"
  "make_doc uuid4 now raw ''article_id'' = Some (Str (choose_id uuid4 (raw ''id'')))"
  "make_doc uuid4 now raw ''stored_at'' = Some (Datetime now)"
  "make_doc uuid4 now raw ''expires_at'' = Some (Datetime (now + hours 36))"
  "make_doc uuid4 now raw ''entities'' = None"
  by (simp_all add: make_doc_def Let_def)

lemma make_doc_other:
  "k \<notin> {''entities'', ''_id'', ''article_id'', ''stored_at'', ''expires_at''} \<Longrightarrow>
     make_doc uuid4 now raw k = raw k"
  by (simp add: make_doc_def Let_def)

lemma upsert_one_mongo:
  "upsert_one mongo_update_one coll (make_doc uuid4 now raw) =
     Some (coll(Str (choose_id uuid4 (raw ''id'')) \<mapsto>
             (case coll (Str (choose_id uuid4 (raw ''id''))) of
                Some old \<Rightarrow> old
              | None \<Rightarrow> [''_id'' \<mapsto> Str (choose_id uuid4 (raw ''id''))])
             ++ (make_doc uuid4 now raw)(''_id'' := None)),
           if coll (Str (choose_id uuid4 (raw ''id''))) = None then ''inserted'' else ''updated'')"
  by (simp add: upsert_one_def mongo_update_one_def make_doc_fields split: option.splits)

lemma strip_empty_iff: "strip s = [] \<longleftrightarrow> (\<forall>c\<in>set s. isspace c)"
proof
  assume "strip s = []"
  then have all: "\<forall>c\<in>set (dropWhile isspace s). isspace c"
    by (simp add: strip_def rstrip_def lstrip_def dropWhile_eq_Nil_conv)
  have "dropWhile isspace s = []"
  proof (cases "dropWhile isspace s")
    case Nil
    then show ?thesis .
  next
    case (Cons c cs)
    then have "\<not> isspace c"
      using hd_dropWhile [of isspace s] by simp
    with all Cons show ?thesis
      by simp
  qed
  then show "\<forall>c\<in>set s. isspace c"
    by (simp add: dropWhile_eq_Nil_conv)
next
  assume "\<forall>c\<in>set s. isspace c"
  then have "dropWhile isspace s = []"
    by (simp add: dropWhile_eq_Nil_conv)
  then show "strip s = []"
    unfolding strip_def rstrip_def lstrip_def by (simp only: rev.simps dropWhile.simps)
qed

lemma choose_id_cases:
  "raw_id = Some (Str s) \<Longrightarrow> \<exists>c\<in>set s. \<not> isspace c \<Longrightarrow> choose_id uuid4 raw_id = s"
  "(\<And>s. raw_id = Some (Str s) \<Longrightarrow> \<forall>c\<in>set s. isspace c) \<Longrightarrow> choose_id uuid4 raw_id = uuid4"
  by (auto simp: choose_id_def strip_empty_iff split: option.splits val.splits)

text \<open>
  C4, as amended. Whatever the collection holds, a document made by \<open>_make_doc\<close> and
  upserted is stored under its key with \<open>stored_at\<close> the time of this write and
  \<open>expires_at\<close> 36 hours later, also when a document with that key was stored before: the
  expiry is recomputed at every write. The key is the article's \<open>id\<close> when that is a string
  with a character that is not whitespace, and the generated uuid in every other case (no
  \<open>id\<close>, an \<open>id\<close> that is not a string, an empty one or one of whitespace only); a new
  document carries the key as its \<open>_id\<close>.
\<close>

theorem upsert_recomputes_expiry:
  "\<exists>coll' res stored.
      upsert_one mongo_update_one coll (make_doc uuid4 now raw) = Some (coll', res) \<and>
      coll' (Str (choose_id uuid4 (raw ''id''))) = Some stored \<and>
      stored ''article_id'' = Some (Str (choose_id uuid4 (raw ''id''))) \<and>
      stored ''stored_at'' = Some (Datetime now) \<and>
      stored ''expires_at'' = Some (Datetime (now + hours 36)) \<and>
      (coll (Str (choose_id uuid4 (raw ''id''))) = None \<longrightarrow>
         stored ''_id'' = Some (Str (choose_id uuid4 (raw ''id'')))) \<and>
      (\<forall>s. raw ''id'' = Some (Str s) \<and> (\<exists>c\<in>set s. \<not> isspace c) \<longrightarrow>
         choose_id uuid4 (raw ''id'') = s) \<and>
      ((\<forall>s. raw ''id'' = Some (Str s) \<longrightarrow> (\<forall>c\<in>set s. isspace c)) \<longrightarrow>
         choose_id uuid4 (raw ''id'') = uuid4)"
proof -
  let ?key = "Str (choose_id uuid4 (raw ''id''))"
  let ?base = "case coll ?key of Some old \<Rightarrow> old | None \<Rightarrow> [''_id'' \<mapsto> ?key]"
  let ?stored = "?base ++ (make_doc uuid4 now raw)(''_id'' := None)"
  have written: "upsert_one mongo_update_one coll (make_doc uuid4 now raw) =
      Some (coll(?key \<mapsto> ?stored), if coll ?key = None then ''inserted'' else ''updated'')"
    by (rule upsert_one_mongo)
  have times: "?stored ''article_id'' = Some ?key" "?stored ''stored_at'' = Some (Datetime now)"
      "?stored ''expires_at'' = Some (Datetime (now + hours 36))"
    by (simp_all add: map_add_def make_doc_fields)
  have fresh: "coll ?key = None \<longrightarrow> ?stored ''_id'' = Some ?key"
    by (simp add: map_add_def)
  have own_id: "\<forall>s. raw ''id'' = Some (Str s) \<and> (\<exists>c\<in>set s. \<not> isspace c) \<longrightarrow>
      choose_id uuid4 (raw ''id'') = s"
    using choose_id_cases(1) by blast
  have generated: "(\<forall>s. raw ''id'' = Some (Str s) \<longrightarrow> (\<forall>c\<in>set s. isspace c)) \<longrightarrow>
      choose_id uuid4 (raw ''id'') = uuid4"
    using choose_id_cases(2) by blast
  from written times fresh own_id generated show ?thesis
    by simp
qed

theorem upsert_recomputes_expiry_witness:
  "article_a1 ''id'' = Some (Str ''a1'') \<and> (\<exists>c\<in>set ''a1''. \<not> isspace c) \<and>
   (Map.empty :: collection) (Str ''a1'') = None \<and>
   (\<exists>coll' res stored.
      upsert_one mongo_update_one Map.empty (make_doc ''generated'' 3600 article_a1) =
        Some (coll', res) \<and>
      coll' (Str ''a1'') = Some stored \<and>
      stored ''_id'' = Some (Str ''a1'') \<and>
      stored ''stored_at'' = Some (Datetime 3600) \<and>
      stored ''expires_at'' = Some (Datetime (3600 + hours 36))) \<and>
   article_nbsp_id ''id'' = Some (Str [CHR 0xA0, CHR '' '']) \<and>
   isspace (CHR 0xA0) \<and> isspace CHR '' '' \<and>
   (\<exists>coll' res stored.
      upsert_one mongo_update_one Map.empty (make_doc ''generated'' 3600 article_nbsp_id) =
        Some (coll', res) \<and>
      coll' (Str ''generated'') = Some stored \<and>
      stored ''_id'' = Some (Str ''generated'') \<and>
      stored ''expires_at'' = Some (Datetime (3600 + hours 36)))"
proof -
  have id: "article_a1 ''id'' = Some (Str ''a1'')"
    by (simp add: article_a1_def)
  have nb: "\<exists>c\<in>set ''a1''. \<not> isspace c"
    by (simp add: isspace_def)
  have blank: "\<forall>s. article_nbsp_id ''id'' = Some (Str s) \<longrightarrow> (\<forall>c\<in>set s. isspace c)"
    by (simp add: article_nbsp_id_def isspace_def)
  have first: "\<exists>coll' res stored.
      upsert_one mongo_update_one Map.empty (make_doc ''generated'' 3600 article_a1) =
        Some (coll', res) \<and>
      coll' (Str ''a1'') = Some stored \<and>
      stored ''_id'' = Some (Str ''a1'') \<and>
      stored ''stored_at'' = Some (Datetime 3600) \<and>
      stored ''expires_at'' = Some (Datetime (3600 + hours 36))"
    using upsert_recomputes_expiry [of Map.empty "''generated''" 3600 article_a1] id nb
    by auto
  have second: "\<exists>coll' res stored.
      upsert_one mongo_update_one Map.empty (make_doc ''generated'' 3600 article_nbsp_id) =
        Some (coll', res) \<and>
      coll' (Str ''generated'') = Some stored \<and>
      stored ''_id'' = Some (Str ''generated'') \<and>
      stored ''expires_at'' = Some (Datetime (3600 + hours 36))"
    using upsert_recomputes_expiry [of Map.empty "''generated''" 3600 article_nbsp_id] blank
    by auto
  have nbsp: "article_nbsp_id ''id'' = Some (Str [CHR 0xA0, CHR '' ''])"
      "isspace (CHR 0xA0)" "isspace CHR '' ''"
    by (simp_all add: article_nbsp_id_def isspace_def)
  from id nb nbsp first second show ?thesis
    by simp
qed

text \<open>
  C4, as stated, fails: the article saved at time 0 expires at 36 h; saved again an hour
  later, it is counted as updated and its stored expiry has moved to 37 h. And an article
  whose \<open>id\<close> is blank is stored under a generated key.
\<close>

theorem upsert_extends_expiry_counterexample:
  "map_option (\<lambda>d. d ''expires_at'')
     (store (save (world_up 0) [article_a1] Map.empty) (Str ''a1'')) =
     Some (Some (Datetime (0 + hours 36))) \<and>
   map_option (\<lambda>d. d ''expires_at'')
     (store (save (world_up 3600) [article_a1] (store (save (world_up 0) [article_a1] Map.empty)))
        (Str ''a1'')) =
     Some (Some (Datetime (3600 + hours 36))) \<and>
   summary (save (world_up 3600) [article_a1] (store (save (world_up 0) [article_a1] Map.empty))) =
     Some (0, 1, 0) \<and>
   dom (store (save (world_up 0) [article_blank_id] Map.empty)) = {Str ''generated''}"
  by (simp add: save_defs strip_defs world_up_def article_a1_def article_blank_id_def)

text \<open>A collection that stores the payload of \<open>update_one\<close> as it receives it.\<close>

definition record_payload ::
  "collection \<Rightarrow> val \<Rightarrow> doc \<Rightarrow> (collection \<times> nat \<times> val option) option" where
  "record_payload coll k to_set = Some (coll(k \<mapsto> to_set), 0, Some k)"

text \<open>
  C8, as amended. The document in the store after the upsert has every field of the
  article unchanged, except \<open>entities\<close>, which \<open>_make_doc\<close> removes (the stored document
  has that field only if an older version of it had), and \<open>article_id\<close>, \<open>stored_at\<close>
  and \<open>expires_at\<close>, which are set to the key and the two timestamps. The \<open>_id\<close> of a
  document that was there is left as it was, and the payload handed to \<open>update_one\<close> is
  the document without its \<open>_id\<close>.
\<close>

theorem stored_document_frame:
  "\<exists>coll' res stored.
      upsert_one mongo_update_one coll (make_doc uuid4 now raw) = Some (coll', res) \<and>
      coll' (Str (choose_id uuid4 (raw ''id''))) = Some stored \<and>
      (\<forall>k. k \<notin> {''entities'', ''_id'', ''article_id'', ''stored_at'', ''expires_at''} \<and>
           raw k \<noteq> None \<longrightarrow> stored k = raw k) \<and>
      stored ''article_id'' = Some (Str (choose_id uuid4 (raw ''id''))) \<and>
      stored ''stored_at'' = Some (Datetime now) \<and>
      stored ''expires_at'' = Some (Datetime (now + hours 36)) \<and>
      stored ''entities'' =
        (case coll (Str (choose_id uuid4 (raw ''id''))) of
           Some old \<Rightarrow> old ''entities''
         | None \<Rightarrow> None) \<and>
      stored ''_id'' =
        (case coll (Str (choose_id uuid4 (raw ''id''))) of
           Some old \<Rightarrow> old ''_id''
         | None \<Rightarrow> Some (Str (choose_id uuid4 (raw ''id'')))) \<and>
      upsert_one record_payload coll (make_doc uuid4 now raw) =
        Some (coll(Str (choose_id uuid4 (raw ''id'')) \<mapsto>
                (make_doc uuid4 now raw)(''_id'' := None)), ''inserted'')"
proof -
  let ?key = "Str (choose_id uuid4 (raw ''id''))"
  let ?base = "case coll ?key of Some old \<Rightarrow> old | None \<Rightarrow> [''_id'' \<mapsto> ?key]"
  let ?stored = "?base ++ (make_doc uuid4 now raw)(''_id'' := None)"
  have other: "?stored k = raw k"
    if "k \<notin> {''entities'', ''_id'', ''article_id'', ''stored_at'', ''expires_at''}" "raw k \<noteq> None"
    for k
  proof -
    from that(1) have "make_doc uuid4 now raw k = raw k"
      by (rule make_doc_other)
    with that show ?thesis
      by (auto simp: map_add_def split: option.splits)
  qed
  have "?stored ''entities'' = (case coll ?key of Some old \<Rightarrow> old ''entities'' | None \<Rightarrow> None)"
    by (simp add: map_add_def make_doc_fields split: option.splits)
  moreover have "?stored ''_id'' = (case coll ?key of Some old \<Rightarrow> old ''_id'' | None \<Rightarrow> Some ?key)"
    by (simp add: map_add_def split: option.splits)
  moreover have "?stored ''article_id'' = Some ?key" "?stored ''stored_at'' = Some (Datetime now)"
      "?stored ''expires_at'' = Some (Datetime (now + hours 36))"
    by (simp_all add: map_add_def make_doc_fields)
  moreover have "upsert_one record_payload coll (make_doc uuid4 now raw) =
      Some (coll(?key \<mapsto> (make_doc uuid4 now raw)(''_id'' := None)), ''inserted'')"
    by (simp add: upsert_one_def record_payload_def make_doc_fields)
  ultimately show ?thesis
    using other by (simp add: upsert_one_mongo)
qed

theorem stored_document_frame_witness:
  "article_a1 ''title'' = Some (Str ''Rate cut lifts banks'') \<and>
   (\<exists>coll' res stored.
      upsert_one mongo_update_one Map.empty (make_doc ''generated'' 0 article_a1) =
        Some (coll', res) \<and>
      coll' (Str ''a1'') = Some stored \<and>
      stored ''title'' = Some (Str ''Rate cut lifts banks'') \<and>
      stored ''entities'' = None \<and>
      stored ''_id'' = Some (Str ''a1''))"
proof -
  have id: "article_a1 ''id'' = Some (Str ''a1'')"
    by (simp add: article_a1_def)
  have nb: "strip ''a1'' \<noteq> []"
    by (simp add: strip_defs)
  from id nb have key: "choose_id ''generated'' (article_a1 ''id'') = ''a1''"
    by (simp add: choose_id_def)
  have title: "article_a1 ''title'' = Some (Str ''Rate cut lifts banks'')"
    by (simp add: article_a1_def)
  from stored_document_frame [of Map.empty "''generated''" 0 article_a1]
  obtain coll' res stored where s:
      "upsert_one mongo_update_one Map.empty (make_doc ''generated'' 0 article_a1) = Some (coll', res)"
      "coll' (Str ''a1'') = Some stored"
      "\<forall>k. k \<notin> {''entities'', ''_id'', ''article_id'', ''stored_at'', ''expires_at''} \<and>
           article_a1 k \<noteq> None \<longrightarrow> stored k = article_a1 k"
      "stored ''entities'' = None"
      "stored ''_id'' = Some (Str ''a1'')"
    unfolding key by auto
  from s(3) title have "stored ''title'' = Some (Str ''Rate cut lifts banks'')"
    by simp
  with s title show ?thesis
    by blast
qed

text \<open>
  C8, as stated, fails: the article has entities, the stored document has none, and it
  has an \<open>article_id\<close> the article did not have.
\<close>

theorem entities_dropped_counterexample:
  "article_a1 ''entities'' = Some (Arr [Obj [(''type'', Str ''ORG''), (''value'', Str ''RBI'')]]) \<and>
   returned (save (world_up 0) [article_a1] Map.empty) = Inr 1 \<and>
   map_option (\<lambda>d. d ''entities'') (store (save (world_up 0) [article_a1] Map.empty) (Str ''a1'')) =
     Some None \<and>
   map_option (\<lambda>d. d ''article_id'') (store (save (world_up 0) [article_a1] Map.empty) (Str ''a1'')) =
     Some (Some (Str ''a1''))"
  by (simp add: save_defs strip_defs world_up_def article_a1_def)

subsection \<open>Reaching the store\<close>






subsection \<open>Writing the batch\<close>





section \<open>structurer.py: parsing the reply\<close>

text \<open>
  \<open>json.loads\<close> is the standard library's: it is the parameter \<open>loads\<close>, \<open>None\<close> where it
  raises. \<open>json_from_text\<close> returns a Python value, \<open>Null\<close> standing for \<open>None\<close>, and the
  model gives with it the texts it writes to \<open>llm_bad_output_*.txt\<close> files (a write that
  fails is swallowed by the source).
\<close>

definition backtick :: char where
  "backtick = CHR 0x60"

definition dquote :: char where
  "dquote = CHR 0x22"

definition backslash :: char where
  "backslash = CHR 0x5C"

text \<open>\<open>s.strip(c)\<close> for the backtick \<open>c\<close>.\<close>

definition strip_backticks :: "string \<Rightarrow> string" where
  "strip_backticks s =
     rev (dropWhile (\<lambda>c. c = backtick) (rev (dropWhile (\<lambda>c. c = backtick) s)))"

definition strip_code_fences :: "string \<Rightarrow> string" where
  "strip_code_fences s0 =
     (let s = strip s0;
          s = (if startswith s [backtick, backtick, backtick] then strip (strip_backticks s) else s);
          s = (if startswith (lower s) ''json'' then lstrip (drop 4 s) else s)
      in s)"

text \<open>
  The loop of \<open>_extract_json_braces\<close> from the first opening brace on; \<open>seen\<close> is
  \<open>s[start:i]\<close>.
\<close>

fun scan_braces :: "int \<Rightarrow> bool \<Rightarrow> bool \<Rightarrow> string \<Rightarrow> string \<Rightarrow> string option" where
  "scan_braces depth in_string esc seen [] = None"
| "scan_braces depth in_string esc seen (ch # rest) =
     (if in_string then
        (if esc then scan_braces depth True False (seen @ [ch]) rest
         else if ch = backslash then scan_braces depth True True (seen @ [ch]) rest
         else if ch = dquote then scan_braces depth False esc (seen @ [ch]) rest
         else scan_braces depth True esc (seen @ [ch]) rest)
      else
        (if ch = dquote then scan_braces depth True esc (seen @ [ch]) rest
         else if ch = CHR ''{'' then scan_braces (depth + 1) False esc (seen @ [ch]) rest
         else if ch = CHR ''}'' then
           (if depth - 1 = 0 then Some (seen @ [ch])
            else scan_braces (depth - 1) False esc (seen @ [ch]) rest)
         else scan_braces depth False esc (seen @ [ch]) rest))"

definition extract_json_braces :: "string \<Rightarrow> string option" where
  "extract_json_braces s =
     (if s = [] then None
      else case dropWhile (\<lambda>c. c \<noteq> CHR ''{'') s of
             [] \<Rightarrow> None
           | from_start \<Rightarrow> scan_braces 0 False False [] from_start)"

text \<open>
  \<open>re.sub(r",\s*([}\]])", r"\1", obj_str)\<close>: from left to right, a comma followed by
  whitespace and a closing brace or bracket is replaced by that brace or bracket.
\<close>

function strip_trailing_commas :: "string \<Rightarrow> string" where
  "strip_trailing_commas [] = []"
| "strip_trailing_commas (c # cs) =
     (if c = CHR '','' then
        (case dropWhile isspace cs of
           [] \<Rightarrow> c # strip_trailing_commas cs
         | b # rest \<Rightarrow>
             if b = CHR ''}'' \<or> b = CHR '']'' then b # strip_trailing_commas rest
             else c # strip_trailing_commas cs)
      else c # strip_trailing_commas cs)"
  by pat_completeness auto
termination
proof (relation "measure length")
  fix c :: char and cs b rest
  assume "dropWhile isspace cs = b # rest"
  then have "length (b # rest) \<le> length cs"
    by (metis length_dropWhile_le)
  then show "(rest, c # cs) \<in> measure length"
    by simp
qed auto

declare strip_trailing_commas.simps [simp del]

definition json_from_text :: "(string \<Rightarrow> val option) \<Rightarrow> string \<Rightarrow> val \<times> string list" where
  "json_from_text loads raw =
     (if raw = [] then (Null, [])
      else
        let s = strip_code_fences raw in
        case loads s of
          Some v \<Rightarrow> (v, [])
        | None \<Rightarrow>
            (case extract_json_braces s of
               Some obj_str \<Rightarrow>
                 (case loads obj_str of
                    Some v \<Rightarrow> (v, [])
                  | None \<Rightarrow>
                      (case loads (strip_trailing_commas obj_str) of
                         Some v \<Rightarrow> (v, [])
                       | None \<Rightarrow> (Null, [raw])))
             | None \<Rightarrow> (Null, [raw])))"

text \<open>
  The inside of an object with one member \<open>a\<close>, whose value is the string made of a closing
  brace, a quote and an opening brace; in the text the quote is escaped by a backslash.
\<close>

definition escaped_body :: string where
  "escaped_body =
     dquote # ''a'' @ dquote # '': '' @ dquote # (CHR ''}'' # backslash # dquote # ''{'') @ [dquote]"

text \<open>What \<open>json.loads\<close> returns on the texts the examples use.\<close>

definition loads_sample :: "string \<Rightarrow> val option" where
  \<open>loads_sample s =
     (if s = ''{"a": 1}'' then Some (Obj [(''a'', Num 1)])
      else if s = ''{"a": "}"}'' then Some (Obj [(''a'', Str ''}'')])
      else if s = CHR ''{'' # escaped_body @ ''}'' then Some (Obj [(''a'', Str (CHR ''}'' # dquote # ''{''))])
      else if s = ''[]'' then Some (Arr [])
      else None)\<close>

subsection \<open>Stripping\<close>







lemma brace_not_fence: "\<not> startswith (CHR ''{'' # xs) [backtick, backtick, backtick]"
  by (simp add: backtick_def)





subsection \<open>The balanced span\<close>











subsection \<open>Trailing commas\<close>



subsection \<open>The replies of the claim\<close>












text \<open>
  \<open>json_from_text\<close> is annotated \<open>Optional[Dict[str, Any]]\<close>, but the strict parse returns
  whatever \<open>json.loads\<close> gives: for the reply \<open>[]\<close>, a list.
\<close>

lemma strict_parse_returns_list: "json_from_text loads_sample ''[]'' = (Arr [], [])"
  by (simp add: json_from_text_def loads_sample_def strip_code_fences_def strip_defs Let_def
      backtick_def lower_def lower_char_def escaped_body_def dquote_def backslash_def)




section \<open>structurer.py: structuring a batch\<close>

text \<open>
  What \<open>structure\<close> meets outside the program: whether \<open>GEMINI_API_KEY\<close> is set, the text
  \<open>call_gemini\<close> returns at the \<open>n\<close>-th call of a run for an item (an exception of the
  SDK comes back as a text that starts with \<open>__GENAI_EXCEPTION__\<close>), and \<open>json.loads\<close>.
  The rest of the \<open>try\<close> body of \<open>_structure_one\<close> after the parse (the mapping of
  \<open>article_id\<close>, the defaults taken from the item and \<open>coerce_and_validate\<close>) is the
  parameter \<open>finish\<close>: the structured article, or the message of what it raises.
\<close>

record generation =
  api_key_set :: bool
  generate :: "nat \<Rightarrow> item \<Rightarrow> string"
  json_loads :: "string \<Rightarrow> val option"
  finish :: "item \<Rightarrow> val \<Rightarrow> string + val"



definition GENAI_EXCEPTION :: string where
  "GENAI_EXCEPTION = ''__GENAI_EXCEPTION__''"

text \<open>\<open>raw.replace("__GENAI_EXCEPTION__:", "")\<close>\<close>

function remove_marker :: "string \<Rightarrow> string" where
  "remove_marker [] = []"
| "remove_marker (c # cs) =
     (if startswith (c # cs) (GENAI_EXCEPTION @ '':'')
      then remove_marker (drop (length (GENAI_EXCEPTION @ '':'')) (c # cs))
      else c # remove_marker cs)"
  by pat_completeness auto
termination
  by (relation "measure length") (auto simp: GENAI_EXCEPTION_def)

declare remove_marker.simps [simp del]

text \<open>One pass through the \<open>try\<close> body: the article, or the message of the exception.\<close>

definition attempt :: "generation \<Rightarrow> nat \<Rightarrow> item \<Rightarrow> (string + val) \<times> string list" where
  "attempt g n it =
     (let raw = generate g n it in
      if startswith raw GENAI_EXCEPTION then (Inl (remove_marker raw), [])
      else
        case json_from_text (json_loads g) raw of (obj, files) \<Rightarrow>
          if obj = Null then (Inl ''LLM did not return valid JSON.'', files)
          else (finish g it obj, files))"

text \<open>
  \<open>_structure_one\<close>: \<open>for attempt in range(2)\<close>, with the number of the next call, the
  files archived and the pauses made.
\<close>

definition structure_one ::
  "generation \<Rightarrow> nat \<Rightarrow> item \<Rightarrow> (string + val) \<times> nat \<times> string list \<times> real list" where
  "structure_one g n it =
     (case attempt g n it of
        (Inr obj, files) \<Rightarrow> (Inr obj, Suc n, files, [])
      | (Inl last_err, files) \<Rightarrow>
          (case attempt g (Suc n) it of
             (Inr obj, files') \<Rightarrow> (Inr obj, Suc (Suc n), files @ files', [6 / 10])
           | (Inl last_err', files') \<Rightarrow> (Inl last_err', Suc (Suc n), files @ files', [6 / 10])))"



subsection \<open>Item by item\<close>









lemma structure_one_success:
  "fst (structure_one g n it) = Inr obj \<longleftrightarrow>
     fst (attempt g n it) = Inr obj \<or>
     (\<exists>e0. fst (attempt g n it) = Inl e0) \<and> fst (attempt g (Suc n) it) = Inr obj"
  by (auto simp: structure_one_def split: prod.splits sum.splits)








end
